theory Spec2Isabelle
  imports Main
begin

section \<open>Source registry and schema reflection of dwata\<close>

text \<open>
  A shallow embedding of \<^verbatim>\<open>backend/utils/settings.py\<close> (\<^verbatim>\<open>get_all_sources\<close>,
  \<^verbatim>\<open>get_source_settings\<close>) and of
  \<^verbatim>\<open>old_project/backend/apps/tables/workers.py\<close> (\<^verbatim>\<open>refresh\<close>).
  Coroutines are run to completion in program order; a raised exception is the left
  summand of the result, and whatever was written before the raise stays written.
\<close>

subsection \<open>Exceptions\<close>

text \<open>
  The exceptions the modelled lines can raise by themselves (an empty list indexed at 0, a
  missing dictionary key, a missing attribute, \<^verbatim>\<open>None\<close> subscripted, a name that
  is read and bound nowhere), the class
  \<^verbatim>\<open>ExceptionBase\<close> of \<^verbatim>\<open>backend/exceptions/base.py\<close> with its error code, detail and
  status code, and the faults of the collaborators (settings loader, connection, reflection),
  which carry a message.
\<close>

datatype exn =
    IndexError
  | KeyError
  | AttributeError
  | TypeError
  | NameError
  | ExceptionBase string string int
  | CollaboratorError string

fun structured_failure :: "string \<Rightarrow> exn \<Rightarrow> bool" where
  "structured_failure code (ExceptionBase error_code detail status_code) = (error_code = code)"
| "structured_failure code IndexError = False"
| "structured_failure code KeyError = False"
| "structured_failure code AttributeError = False"
| "structured_failure code TypeError = False"
| "structured_failure code NameError = False"
| "structured_failure code (CollaboratorError msg) = False"

subsection \<open>Settings\<close>

text \<open>
  A dictionary is an association list in insertion order; \<^verbatim>\<open>d[k]\<close> is \<open>map_of\<close> with
  \<^verbatim>\<open>KeyError\<close> for a missing key, \<^verbatim>\<open>d.items()\<close> is the list itself. The settings object
  is the association list of its attributes: \<^verbatim>\<open>hasattr\<close> asks whether a name is bound,
  \<^verbatim>\<open>getattr\<close> reads it. Each attribute read here is a section: a dictionary from labels to
  entries, an entry being a dictionary of strings.
\<close>

type_synonym conf_entry = "(string \<times> string) list"
type_synonym conf_section = "(string \<times> conf_entry) list"
type_synonym settings = "(string \<times> conf_section) list"

definition subscript :: "(string \<times> 'v) list \<Rightarrow> string \<Rightarrow> exn + 'v" where
  "subscript d k = (case map_of d k of None \<Rightarrow> Inl KeyError | Some v \<Rightarrow> Inr v)"

definition hasattr :: "settings \<Rightarrow> string \<Rightarrow> bool" where
  "hasattr obj name = (map_of obj name \<noteq> None)"

definition getattr :: "settings \<Rightarrow> string \<Rightarrow> exn + conf_section" where
  "getattr obj name = (case map_of obj name of None \<Rightarrow> Inl AttributeError | Some v \<Rightarrow> Inr v)"

text \<open>\<^verbatim>\<open>str.upper\<close> on the ASCII letters; the other bytes are kept.\<close>

definition upper_char :: "char \<Rightarrow> char" where
  "upper_char c =
     (case map_of (zip ''abcdefghijklmnopqrstuvwxyz'' ''ABCDEFGHIJKLMNOPQRSTUVWXYZ'') c of
        None \<Rightarrow> c
      | Some u \<Rightarrow> u)"

definition upper :: "string \<Rightarrow> string" where
  "upper s = map upper_char s"

subsection \<open>Source descriptors\<close>

text \<open>
  \<^verbatim>\<open>get_all_sources\<close> builds Python lists of two shapes: four items
  \<^verbatim>\<open>[label, "database", scheme, {...}]\<close> on lines 11 and 14, three items
  \<^verbatim>\<open>[label, "service", sname]\<close> on line 21. One constructor per shape; the first three
  items are strings in both.
\<close>

type_synonym attrs = "(string \<times> bool) list"

datatype descriptor =
    Entry3 string string string
  | Entry4 string string string attrs

fun py_len :: "descriptor \<Rightarrow> nat" where
  "py_len (Entry3 a b c) = 3"
| "py_len (Entry4 a b c d) = 4"

fun item0 :: "descriptor \<Rightarrow> string" where
  "item0 (Entry3 a b c) = a"
| "item0 (Entry4 a b c d) = a"

fun item1 :: "descriptor \<Rightarrow> string" where
  "item1 (Entry3 a b c) = b"
| "item1 (Entry4 a b c d) = b"

fun item2 :: "descriptor \<Rightarrow> string" where
  "item2 (Entry3 a b c) = c"
| "item2 (Entry4 a b c d) = c"

fun item3 :: "descriptor \<Rightarrow> exn + attrs" where
  "item3 (Entry3 a b c) = Inl IndexError"
| "item3 (Entry4 a b c d) = Inr d"

subsection \<open>The collaborators\<close>

text \<open>
  What the code reads from outside itself: the settings loader \<^verbatim>\<open>get_settings\<close> (which may
  raise), the keys of \<^verbatim>\<open>services.all_services\<close> in iteration order, the scheme that
  \<^verbatim>\<open>urlparse\<close> finds in a URL, \<^verbatim>\<open>connect_database\<close> (\<open>Some e\<close> when it raises \<open>e\<close>),
  the table names \<^verbatim>\<open>MetaData.reflect\<close> finds behind a URL (or the exception it raises), and
  the clock: the value of the \<open>n\<close>-th call of \<^verbatim>\<open>datetime.utcnow\<close>.
\<close>

record env =
  get_settings :: "exn + settings"
  all_services :: "string list"
  urlparse_scheme :: "string \<Rightarrow> string"
  connect_database :: "string \<Rightarrow> exn option"
  reflect :: "string \<Rightarrow> exn + string list"
  utcnow :: "nat \<Rightarrow> int"

subsection \<open>\<^verbatim>\<open>get_all_sources\<close>\<close>

text \<open>
  The inner comprehension of lines 11-13: one pair of label and scheme for each item of
  \<^verbatim>\<open>settings.DATABASES\<close>; \<^verbatim>\<open>value["db_url"]\<close> raises \<^verbatim>\<open>KeyError\<close> on an entry
  without that key.
\<close>

fun database_pairs :: "(string \<Rightarrow> string) \<Rightarrow> conf_section \<Rightarrow> exn + (string \<times> string) list" where
  "database_pairs scheme [] = Inr []"
| "database_pairs scheme ((label, v) # rest) =
     (case subscript v ''db_url'' of
        Inl e \<Rightarrow> Inl e
      | Inr url \<Rightarrow>
          (case database_pairs scheme rest of
             Inl e \<Rightarrow> Inl e
           | Inr ps \<Rightarrow> Inr ((label, scheme url) # ps)))"

text \<open>The loop of lines 17-22 over the service names.\<close>

fun service_entries :: "settings \<Rightarrow> string list \<Rightarrow> descriptor list" where
  "service_entries obj [] = []"
| "service_entries obj (sname # rest) =
     (if hasattr obj (upper sname)
      then (case getattr obj (upper sname) of
              Inl e \<Rightarrow> []
            | Inr sec \<Rightarrow> map (\<lambda>(label, v). Entry3 label ''service'' sname) sec)
      else [])
     @ service_entries obj rest"

definition system_db :: descriptor where
  "system_db = Entry4 ''dwata_meta'' ''database'' ''sqlite'' [(''is_system_db'', True)]"

definition get_all_sources :: "env \<Rightarrow> exn + descriptor list" where
  "get_all_sources env =
     (case get_settings env of
        Inl e \<Rightarrow> Inl e
      | Inr obj \<Rightarrow>
          (case getattr obj ''DATABASES'' of
             Inl e \<Rightarrow> Inl e
           | Inr dbs \<Rightarrow>
               (case database_pairs (urlparse_scheme env) dbs of
                  Inl e \<Rightarrow> Inl e
                | Inr ps \<Rightarrow>
                    Inr ((map (\<lambda>(label, scheme). Entry4 label ''database'' scheme []) ps
                          @ [system_db])
                         @ service_entries obj (all_services env)))))"

subsection \<open>\<^verbatim>\<open>get_source_settings\<close>\<close>

text \<open>
  \<^verbatim>\<open>[x for x in all_sources if x[0] == source_label][0]\<close>: the first descriptor with
  the label, \<^verbatim>\<open>IndexError\<close> when the comprehension is empty.
\<close>

definition first_match :: "descriptor list \<Rightarrow> string \<Rightarrow> exn + descriptor" where
  "first_match all_sources source_label =
     (case filter (\<lambda>x. item0 x = source_label) all_sources of
        [] \<Rightarrow> Inl IndexError
      | x # rest \<Rightarrow> Inr x)"

text \<open>
  The function falls off its end, returning \<^verbatim>\<open>None\<close>, when the kind is neither
  \<^verbatim>\<open>"database"\<close> nor \<^verbatim>\<open>"service"\<close>; so the result is an \<open>option\<close>.
\<close>

text \<open>\<^verbatim>\<open>settings.DATABASES[label]\<close>, the expression of line 35.\<close>

definition database_entry :: "settings \<Rightarrow> string \<Rightarrow> exn + conf_entry" where
  "database_entry obj source_label =
     (case getattr obj ''DATABASES'' of
        Inl e \<Rightarrow> Inl e
      | Inr dbs \<Rightarrow> subscript dbs source_label)"

definition get_source_settings :: "env \<Rightarrow> string \<Rightarrow> exn + conf_entry option" where
  "get_source_settings env source_label =
     (if source_label = ''dwata_meta''
      then Inr (Some [(''db_url'', ''sqlite:///dwata_meta.db'')])
      else
        (case get_settings env of
           Inl e \<Rightarrow> Inl e
         | Inr obj \<Rightarrow>
             (case get_all_sources env of
                Inl e \<Rightarrow> Inl e
              | Inr all_sources \<Rightarrow>
                  (case first_match all_sources source_label of
                     Inl e \<Rightarrow> Inl e
                   | Inr requested_source \<Rightarrow>
                       if item1 requested_source = ''database''
                       then (case database_entry obj (item0 requested_source) of
                               Inl e \<Rightarrow> Inl e
                             | Inr v \<Rightarrow> Inr (Some v))
                       else if item1 requested_source = ''service''
                       then (case getattr obj (upper (item2 requested_source)) of
                               Inl e \<Rightarrow> Inl e
                             | Inr sec \<Rightarrow>
                                 (case subscript sec (item0 requested_source) of
                                    Inl e \<Rightarrow> Inl e
                                  | Inr v \<Rightarrow> Inr (Some v)))
                       else Inr None))))"

subsection \<open>The metadata store and \<^verbatim>\<open>refresh\<close>\<close>

text \<open>
  The names that \<^verbatim>\<open>workers.py\<close> binds at module level: those of the imports of lines
  1-7 and the function of line 10. A name that is read and is neither among them nor a
  builtin raises \<^verbatim>\<open>NameError\<close>. The store \<^verbatim>\<open>dwata_meta_db\<close>, read on lines 20 and
  34, is not among them.
\<close>

definition workers_globals :: "string list" where
  "workers_globals =
     [''datetime'', ''MetaData'', ''get_all_sources'', ''get_source_settings'',
      ''connect_database'', ''data_sources'', ''tables'', ''refresh'']"

definition load_name :: "string \<Rightarrow> exn option" where
  "load_name name = (if name \<in> set workers_globals then None else Some NameError)"

text \<open>
  The world: the rows of the two tables of the store that the code names, the connections
  that are open (one URL per connection that \<^verbatim>\<open>connect_database\<close> returned and
  \<^verbatim>\<open>conn.close()\<close> has not closed), and how often the clock was read.
\<close>

record data_source_row =
  ds_id :: int
  ds_label :: string

record table_row =
  data_source_id :: int
  table_name :: string
  attributes :: "string list"
  created_at :: int

record world =
  data_sources :: "data_source_row list"
  tables :: "table_row list"
  open_conns :: "string list"
  ticks :: nat

text \<open>
  \<^verbatim>\<open>fetch_one(data_sources.select().where(data_sources.c.label == source_label))\<close>: the
  first row with the label, \<^verbatim>\<open>None\<close> when there is none.
\<close>

definition fetch_one :: "data_source_row list \<Rightarrow> string \<Rightarrow> data_source_row option" where
  "fetch_one rows source_label = find (\<lambda>r. ds_label r = source_label) rows"

text \<open>
  The loop of lines 27-34. Each round builds the query first: \<^verbatim>\<open>data_source["id"]\<close>
  raises \<^verbatim>\<open>TypeError\<close> when \<^verbatim>\<open>data_source\<close> is \<^verbatim>\<open>None\<close>, then the clock is read.
  Line 34 then reads the name \<^verbatim>\<open>dwata_meta_db\<close>; were it bound, \<^verbatim>\<open>execute\<close> would
  append the row.
\<close>

fun insert_tables :: "env \<Rightarrow> data_source_row option \<Rightarrow> string list \<Rightarrow> world \<Rightarrow> (exn + unit) \<times> world" where
  "insert_tables env data_source [] w = (Inr (), w)"
| "insert_tables env data_source (name # rest) w =
     (case data_source of
        None \<Rightarrow> (Inl TypeError, w)
      | Some r \<Rightarrow>
          let query = \<lparr>data_source_id = ds_id r, table_name = name, attributes = [],
                       created_at = utcnow env (ticks w)\<rparr>;
              w1 = w\<lparr>ticks := Suc (ticks w)\<rparr>
          in (case load_name ''dwata_meta_db'' of
                Some e \<Rightarrow> (Inl e, w1)
              | None \<Rightarrow>
                  insert_tables env data_source rest (w1\<lparr>tables := tables w1 @ [query]\<rparr>)))"

text \<open>
  One round of the loop of lines 13-36: it raises, or leaves the function with
  \<^verbatim>\<open>return False\<close>, or reaches \<^verbatim>\<open>conn.close()\<close> and goes on to the next label. Line 20
  reads the name \<^verbatim>\<open>dwata_meta_db\<close> before anything else of that line is evaluated.
\<close>

datatype flow = Raised exn | ReturnedFalse | Completed

definition refresh_label :: "env \<Rightarrow> descriptor list \<Rightarrow> string \<Rightarrow> world \<Rightarrow> flow \<times> world" where
  "refresh_label env all_sources source_label w =
     (case first_match all_sources source_label of
        Inl e \<Rightarrow> (Raised e, w)
      | Inr requested_source \<Rightarrow>
          (case get_source_settings env source_label of
             Inl e \<Rightarrow> (Raised e, w)
           | Inr source_settings \<Rightarrow>
               if item1 requested_source \<noteq> ''database'' then (ReturnedFalse, w)
               else
                 (case load_name ''dwata_meta_db'' of
                    Some e \<Rightarrow> (Raised e, w)
                  | None \<Rightarrow>
                      let data_source = fetch_one (data_sources w) source_label in
                      (case (case source_settings of
                               None \<Rightarrow> Inl TypeError
                             | Some d \<Rightarrow> subscript d ''db_url'') of
                         Inl e \<Rightarrow> (Raised e, w)
                       | Inr url \<Rightarrow>
                           (case connect_database env url of
                              Some e \<Rightarrow> (Raised e, w)
                            | None \<Rightarrow>
                                let w1 = w\<lparr>open_conns := url # open_conns w\<rparr> in
                                (case reflect env url of
                                   Inl e \<Rightarrow> (Raised e, w1)
                                 | Inr names \<Rightarrow>
                                     (case insert_tables env data_source names w1 of
                                        (Inl e, w2) \<Rightarrow> (Raised e, w2)
                                      | (Inr u, w2) \<Rightarrow>
                                          (Completed,
                                           w2\<lparr>open_conns :=
                                                 remove1 url (open_conns w2)\<rparr>))))))))"

text \<open>What \<^verbatim>\<open>refresh\<close> returns: \<^verbatim>\<open>False\<close> or \<^verbatim>\<open>{"status": "success"}\<close>.\<close>

datatype refresh_value = ReturnFalse | StatusSuccess

fun refresh_loop :: "env \<Rightarrow> descriptor list \<Rightarrow> string list \<Rightarrow> world \<Rightarrow> (exn + refresh_value) \<times> world" where
  "refresh_loop env all_sources [] w = (Inr StatusSuccess, w)"
| "refresh_loop env all_sources (source_label # rest) w =
     (case refresh_label env all_sources source_label w of
        (Raised e, w') \<Rightarrow> (Inl e, w')
      | (ReturnedFalse, w') \<Rightarrow> (Inr ReturnFalse, w')
      | (Completed, w') \<Rightarrow> refresh_loop env all_sources rest w')"

definition refresh :: "env \<Rightarrow> string list \<Rightarrow> world \<Rightarrow> (exn + refresh_value) \<times> world" where
  "refresh env source_label_list w =
     (case get_all_sources env of
        Inl e \<Rightarrow> (Inl e, w)
      | Inr all_sources \<Rightarrow> refresh_loop env all_sources source_label_list w)"

subsection \<open>Measures on the results\<close>

text \<open>How often a label occurs in a registry list, and how many table rows a data source owns.\<close>

definition count_label :: "string \<Rightarrow> descriptor list \<Rightarrow> nat" where
  "count_label source_label all_sources = length (filter (\<lambda>x. item0 x = source_label) all_sources)"


subsection \<open>Example configurations\<close>

text \<open>
  A database \<^verbatim>\<open>sales\<close> with the tables \<^verbatim>\<open>a\<close> and \<^verbatim>\<open>b\<close>, a database
  \<^verbatim>\<open>archive\<close> without tables, one service section \<^verbatim>\<open>STRIPE\<close>; \<open>shop_sources\<close> is the
  registry list these settings give. The store of \<open>shop_world\<close> has a data source row
  for each database, that of \<open>bare_world\<close> has none.
\<close>

definition shop_settings :: settings where
  "shop_settings =
     [(''DATABASES'',
         [(''sales'', [(''db_url'', ''postgres://host/salesdb'')]),
          (''archive'', [(''db_url'', ''mysql://host/archive'')])]),
      (''STRIPE'', [(''billing'', [(''api_key'', ''sk_test'')])])]"

definition shop_env :: env where
  "shop_env =
     \<lparr>get_settings = Inr shop_settings,
      all_services = [''stripe''],
      urlparse_scheme = takeWhile (\<lambda>c. c \<noteq> CHR '':''),
      connect_database = (\<lambda>url. None),
      reflect = (\<lambda>url. if url = ''postgres://host/salesdb'' then Inr [''a'', ''b''] else Inr []),
      utcnow = int\<rparr>"

definition shop_sources :: "descriptor list" where
  "shop_sources =
     [Entry4 ''sales'' ''database'' ''postgres'' [],
      Entry4 ''archive'' ''database'' ''mysql'' [],
      Entry4 ''dwata_meta'' ''database'' ''sqlite'' [(''is_system_db'', True)],
      Entry3 ''billing'' ''service'' ''stripe'']"

definition shop_world :: world where
  "shop_world =
     \<lparr>data_sources =
        [\<lparr>ds_id = 9, ds_label = ''archive''\<rparr>, \<lparr>ds_id = 7, ds_label = ''sales''\<rparr>],
      tables = [], open_conns = [], ticks = 0\<rparr>"


text \<open>Settings that use the label \<^verbatim>\<open>dwata_meta\<close> for a database and for a service of their own.\<close>

definition clash_settings :: settings where
  "clash_settings =
     [(''DATABASES'', [(''dwata_meta'', [(''db_url'', ''postgres://host/meta'')])]),
      (''STRIPE'', [(''dwata_meta'', [(''api_key'', ''sk_test'')])])]"

definition clash_env :: env where
  "clash_env = shop_env\<lparr>get_settings := Inr clash_settings\<rparr>"

definition clash_sources :: "descriptor list" where
  "clash_sources =
     [Entry4 ''dwata_meta'' ''database'' ''postgres'' [],
      Entry4 ''dwata_meta'' ''database'' ''sqlite'' [(''is_system_db'', True)],
      Entry3 ''dwata_meta'' ''service'' ''stripe'']"

text \<open>Settings in which \<^verbatim>\<open>sales\<close> names a database and an entry of the service section.\<close>

definition twin_settings :: settings where
  "twin_settings =
     [(''DATABASES'', [(''sales'', [(''db_url'', ''postgres://host/salesdb'')])]),
      (''STRIPE'', [(''sales'', [(''api_key'', ''sk_test'')])])]"

definition twin_env :: env where
  "twin_env = shop_env\<lparr>get_settings := Inr twin_settings\<rparr>"

definition twin_sources :: "descriptor list" where
  "twin_sources =
     [Entry4 ''sales'' ''database'' ''postgres'' [],
      Entry4 ''dwata_meta'' ''database'' ''sqlite'' [(''is_system_db'', True)],
      Entry3 ''sales'' ''service'' ''stripe'']"

section \<open>Auxiliary facts\<close>

subsection \<open>The registry list\<close>

lemma database_pairs_labels:
  "database_pairs sch dbs = Inr ps \<Longrightarrow> map fst ps = map fst dbs"
proof (induction dbs arbitrary: ps)
  case Nil
  then show ?case by simp
next
  case (Cons a dbs)
  obtain l v where a: "a = (l, v)" by (cases a)
  from Cons.prems a show ?case
    by (auto split: sum.splits dest: Cons.IH)
qed

lemma get_all_sources_shape:
  assumes "get_all_sources env = Inr srcs"
  obtains obj dbs ps where
    "get_settings env = Inr obj" "getattr obj ''DATABASES'' = Inr dbs"
    "database_pairs (urlparse_scheme env) dbs = Inr ps"
    "srcs = map (\<lambda>(label, scheme). Entry4 label ''database'' scheme []) ps @ [system_db]
            @ service_entries obj (all_services env)"
  using assms by (auto simp: get_all_sources_def split: sum.splits)

lemma service_entries_shape:
  "d \<in> set (service_entries obj names) \<Longrightarrow>
   \<exists>l s sec v. d = Entry3 l ''service'' s \<and> s \<in> set names \<and> map_of obj (upper s) = Some sec
      \<and> (l, v) \<in> set sec"
proof (induction names)
  case Nil
  then show ?case by simp
next
  case (Cons s names)
  show ?case
  proof (cases "d \<in> set (service_entries obj names)")
    case True
    from Cons.IH [OF True] show ?thesis by auto
  next
    case False
    with Cons.prems obtain sec where sec: "map_of obj (upper s) = Some sec"
      and d: "d \<in> set (map (\<lambda>(label, v). Entry3 label ''service'' s) sec)"
      by (cases "map_of obj (upper s)") (simp_all add: hasattr_def getattr_def)
    from d obtain l v where "(l, v) \<in> set sec" "d = Entry3 l ''service'' s" by auto
    with sec show ?thesis by auto
  qed
qed

lemma service_entries_kind:
  "d \<in> set (service_entries obj names) \<Longrightarrow> item1 d = ''service'' \<and> py_len d = 3"
  by (auto dest: service_entries_shape)

lemma registry_order:
  assumes "get_all_sources env = Inr all_sources"
  shows "\<exists>ds ss. all_sources = ds @ ss \<and> (\<forall>x \<in> set ds. item1 x = ''database'')
                 \<and> (\<forall>x \<in> set ss. item1 x = ''service'')"
proof -
  from assms obtain obj dbs ps where
    srcs: "all_sources = map (\<lambda>(label, scheme). Entry4 label ''database'' scheme []) ps
             @ [system_db] @ service_entries obj (all_services env)"
    by (rule get_all_sources_shape)
  let ?ds = "map (\<lambda>(label, scheme). Entry4 label ''database'' scheme []) ps @ [system_db]"
  have "\<forall>x \<in> set ?ds. item1 x = ''database''" by (auto simp: system_db_def)
  moreover have "\<forall>x \<in> set (service_entries obj (all_services env)). item1 x = ''service''"
    by (simp add: service_entries_kind)
  moreover from srcs have "all_sources = ?ds @ service_entries obj (all_services env)" by simp
  ultimately show ?thesis by blast
qed

lemma count_label_databases:
  "count_label L (map (\<lambda>(label, scheme). Entry4 label ''database'' scheme []) ps)
     = count_list (map fst ps) L"
  by (induction ps) (auto simp: count_label_def)

lemma count_label_append:
  "count_label L (xs @ ys) = count_label L xs + count_label L ys"
  by (simp add: count_label_def)

subsection \<open>Looking a label up\<close>

lemma first_match_mem:
  "first_match srcs l = Inr d \<Longrightarrow> d \<in> set srcs \<and> item0 d = l"
  unfolding first_match_def
  by (auto split: list.splits dest: filter_eq_ConsD)

lemma first_match_absent:
  "l \<notin> item0 ` set srcs \<Longrightarrow> first_match srcs l = Inl IndexError"
  unfolding first_match_def
  by (auto split: list.splits dest!: filter_eq_ConsD)

lemma first_match_database:
  "L \<in> fst ` set ps \<Longrightarrow>
   \<exists>scheme. first_match (map (\<lambda>(label, scheme). Entry4 label ''database'' scheme []) ps @ others) L
              = Inr (Entry4 L ''database'' scheme [])"
proof (induction ps)
  case Nil
  then show ?case by simp
next
  case (Cons p ps)
  obtain l sch where p: "p = (l, sch)" by (cases p)
  show ?case
  proof (cases "l = L")
    case True
    with p show ?thesis by (simp add: first_match_def)
  next
    case False
    with Cons.prems p have "L \<in> fst ` set ps" by auto
    from Cons.IH [OF this] False p show ?thesis by (simp add: first_match_def)
  qed
qed

lemma service_match_settings:
  assumes "get_all_sources env = Inr all_sources"
    and "first_match all_sources L = Inr d" and "item1 d = ''service''"
  shows "\<exists>v. get_source_settings env L = Inr (Some v)"
proof (cases "L = ''dwata_meta''")
  case True
  then show ?thesis by (simp add: get_source_settings_def)
next
  case False
  from assms(1) obtain obj dbs ps where obj: "get_settings env = Inr obj"
    and srcs: "all_sources = map (\<lambda>(label, scheme). Entry4 label ''database'' scheme []) ps
                 @ [system_db] @ service_entries obj (all_services env)"
    by (rule get_all_sources_shape)
  from first_match_mem [OF assms(2)] have mem: "d \<in> set all_sources" and lab: "item0 d = L"
    by simp_all
  from mem srcs assms(3) have "d \<in> set (service_entries obj (all_services env))"
    by (auto simp: system_db_def)
  then obtain l s sec v where d: "d = Entry3 l ''service'' s"
    and sec: "map_of obj (upper s) = Some sec" and lv: "(l, v) \<in> set sec"
    using service_entries_shape by blast
  from lv have "map_of sec l \<noteq> None"
    by (metis map_of_eq_None_iff fst_conv image_eqI)
  then obtain v' where "map_of sec l = Some v'" by blast
  with False obj assms(1,2) d sec lab show ?thesis
    by (simp add: get_source_settings_def getattr_def subscript_def)
qed

subsection \<open>One round of \<^verbatim>\<open>refresh\<close>\<close>

lemma database_match_settings:
  assumes "get_all_sources env = Inr all_sources"
    and "first_match all_sources L = Inr d" and "item1 d = ''database''"
  shows "\<exists>v. get_source_settings env L = Inr (Some v)"
proof (cases "L = ''dwata_meta''")
  case True
  then show ?thesis by (simp add: get_source_settings_def)
next
  case False
  from assms(1) obtain obj dbs ps where obj: "get_settings env = Inr obj"
    and dbs: "getattr obj ''DATABASES'' = Inr dbs"
    and ps: "database_pairs (urlparse_scheme env) dbs = Inr ps"
    and srcs: "all_sources = map (\<lambda>(label, scheme). Entry4 label ''database'' scheme []) ps
                 @ [system_db] @ service_entries obj (all_services env)"
    by (rule get_all_sources_shape)
  from first_match_mem [OF assms(2)] have mem: "d \<in> set all_sources" and lab: "item0 d = L"
    by simp_all
  from mem srcs assms(3) lab False
  have "d \<in> set (map (\<lambda>(label, scheme). Entry4 label ''database'' scheme []) ps)"
    by (auto simp: system_db_def dest: service_entries_kind)
  with lab have "L \<in> fst ` set ps" by force
  with database_pairs_labels [OF ps] have "L \<in> fst ` set dbs" by (metis image_set)
  then have "map_of dbs L \<noteq> None" by (simp add: map_of_eq_None_iff)
  then obtain v where "map_of dbs L = Some v" by blast
  with False obj dbs assms lab show ?thesis
    by (simp add: get_source_settings_def database_entry_def subscript_def)
qed

lemma store_unbound: "load_name ''dwata_meta_db'' = Some NameError"
  by (simp add: load_name_def workers_globals_def)

lemma refresh_label_database:
  assumes "get_all_sources env = Inr all_sources"
    and "first_match all_sources L = Inr d" and "item1 d = ''database''"
  shows "refresh_label env all_sources L w = (Raised NameError, w)"
proof -
  from database_match_settings [OF assms] obtain v
    where "get_source_settings env L = Inr (Some v)" ..
  with assms(2,3) show ?thesis
    by (simp add: refresh_label_def store_unbound)
qed

lemma refresh_label_service:
  assumes "get_all_sources env = Inr all_sources"
    and "first_match all_sources L = Inr d" and "item1 d \<noteq> ''database''"
  shows "refresh_label env all_sources L w = (ReturnedFalse, w)"
proof -
  from registry_order [OF assms(1)] first_match_mem [OF assms(2)] assms(3)
  have "item1 d = ''service''" by auto
  from service_match_settings [OF assms(1,2) this] obtain v
    where "get_source_settings env L = Inr (Some v)" ..
  with assms(2,3) show ?thesis
    by (simp add: refresh_label_def)
qed





lemma refresh_outcome:
  assumes "get_all_sources env = Inr all_sources"
  shows "refresh env (L # rest) w =
           (case first_match all_sources L of
              Inl e \<Rightarrow> (Inl IndexError, w)
            | Inr d \<Rightarrow>
                if item1 d \<noteq> ''database'' then (Inr ReturnFalse, w) else (Inl NameError, w))"
proof (cases "first_match all_sources L")
  case (Inl e)
  then have "first_match all_sources L = Inl IndexError"
    by (auto simp: first_match_def split: list.splits)
  with assms show ?thesis by (simp add: refresh_def refresh_label_def)
next
  case (Inr d)
  show ?thesis
  proof (cases "item1 d = ''database''")
    case True
    with refresh_label_database [OF assms Inr True] assms Inr show ?thesis
      by (simp add: refresh_def)
  next
    case False
    with refresh_label_service [OF assms Inr False] assms Inr show ?thesis
      by (simp add: refresh_def)
  qed
qed

subsection \<open>The example configurations, evaluated\<close>

lemma upper_stripe: "upper ''stripe'' = ''STRIPE''"
  by (simp add: upper_def upper_char_def)

lemma shop_get_settings: "get_settings shop_env = Inr shop_settings"
  by (simp add: shop_env_def)

lemma shop_registry: "get_all_sources shop_env = Inr shop_sources"
  by (simp add: get_all_sources_def shop_env_def shop_settings_def shop_sources_def
      getattr_def hasattr_def subscript_def upper_stripe system_db_def)

lemma clash_registry: "get_all_sources clash_env = Inr clash_sources"
  by (simp add: get_all_sources_def clash_env_def shop_env_def clash_settings_def
      clash_sources_def getattr_def hasattr_def subscript_def upper_stripe system_db_def)

lemma twin_registry: "get_all_sources twin_env = Inr twin_sources"
  by (simp add: get_all_sources_def twin_env_def shop_env_def twin_settings_def
      twin_sources_def getattr_def hasattr_def subscript_def upper_stripe system_db_def)

lemma shop_sales_match:
  "first_match shop_sources ''sales'' = Inr (Entry4 ''sales'' ''database'' ''postgres'' [])"
  by (simp add: first_match_def shop_sources_def)

lemma shop_billing_match:
  "first_match shop_sources ''billing'' = Inr (Entry3 ''billing'' ''service'' ''stripe'')"
  by (simp add: first_match_def shop_sources_def)

lemma shop_sales_settings:
  "get_source_settings shop_env ''sales'' = Inr (Some [(''db_url'', ''postgres://host/salesdb'')])"
  by (simp add: get_source_settings_def shop_get_settings shop_registry shop_sales_match)
     (simp add: shop_settings_def database_entry_def getattr_def subscript_def)

lemma shop_sales_reflect: "reflect shop_env ''postgres://host/salesdb'' = Inr [''a'', ''b'']"
  by (simp add: shop_env_def)

lemma shop_sales_record:
  "fetch_one (data_sources shop_world) ''sales'' = Some \<lparr>ds_id = 7, ds_label = ''sales''\<rparr>"
  by (simp add: fetch_one_def shop_world_def)

section \<open>The claims\<close>

subsection \<open>The registry\<close>

text \<open>
  C2, as the code has it. Whenever \<^verbatim>\<open>get_all_sources\<close> returns a list, the synthetic
  descriptor \<^verbatim>\<open>["dwata_meta", "database", "sqlite", {"is_system_db": True}]\<close> is in it
  exactly once. The label \<^verbatim>\<open>dwata_meta\<close> occurs once for that descriptor and once more
  for every entry of \<^verbatim>\<open>settings.DATABASES\<close> or of a configured service section that
  uses the label; so it occurs exactly once when the settings do not use it.
\<close>

theorem system_db_listed_once:
  assumes "get_settings env = Inr obj"
    and "getattr obj ''DATABASES'' = Inr dbs"
    and "get_all_sources env = Inr all_sources"
  shows "count_list all_sources system_db = 1
         \<and> item1 system_db = ''database''
         \<and> item3 system_db = Inr [(''is_system_db'', True)]
         \<and> count_label ''dwata_meta'' all_sources
             = Suc (count_list (map fst dbs) ''dwata_meta''
                    + count_label ''dwata_meta'' (service_entries obj (all_services env)))"
proof -
  from assms(3) obtain obj' dbs' ps where obj': "get_settings env = Inr obj'"
    and dbs': "getattr obj' ''DATABASES'' = Inr dbs'"
    and ps: "database_pairs (urlparse_scheme env) dbs' = Inr ps"
    and srcs: "all_sources = map (\<lambda>(label, scheme). Entry4 label ''database'' scheme []) ps
                 @ [system_db] @ service_entries obj' (all_services env)"
    by (rule get_all_sources_shape)
  from obj' assms(1) have o: "obj' = obj" by simp
  with dbs' assms(2) have d: "dbs' = dbs" by simp
  have "system_db \<notin> set (map (\<lambda>(label, scheme). Entry4 label ''database'' scheme []) ps)"
    by (auto simp: system_db_def)
  then have z1:
    "count_list (map (\<lambda>(label, scheme). Entry4 label ''database'' scheme []) ps) system_db = 0"
    by simp
  have "system_db \<notin> set (service_entries obj (all_services env))"
    using service_entries_kind [of system_db obj "all_services env"] by (auto simp: system_db_def)
  then have z2: "count_list (service_entries obj (all_services env)) system_db = 0"
    by simp
  have once: "count_list all_sources system_db = 1"
    using z1 z2 by (simp add: srcs o)
  have "count_label ''dwata_meta'' all_sources
          = Suc (count_list (map fst ps) ''dwata_meta''
                 + count_label ''dwata_meta'' (service_entries obj (all_services env)))"
    by (simp add: srcs o count_label_append count_label_databases)
       (simp add: count_label_def system_db_def)
  with database_pairs_labels [OF ps] d once show ?thesis
    by (simp add: system_db_def)
qed

text \<open>
  The theorem at the shop's settings, which do not use the label: the synthetic descriptor
  and the label both occur once.
\<close>

theorem system_db_listed_once_witness:
  "count_list shop_sources system_db = 1 \<and> count_label ''dwata_meta'' shop_sources = 1"
proof -
  note s = shop_get_settings
  have g: "getattr shop_settings ''DATABASES''
             = Inr [(''sales'', [(''db_url'', ''postgres://host/salesdb'')]),
                    (''archive'', [(''db_url'', ''mysql://host/archive'')])]"
    by (simp add: getattr_def shop_settings_def)
  have n: "count_label ''dwata_meta'' (service_entries shop_settings (all_services shop_env)) = 0"
    by (simp add: count_label_def shop_env_def shop_settings_def hasattr_def getattr_def
        upper_stripe)
  from system_db_listed_once [OF s g shop_registry] n show ?thesis by simp
qed

text \<open>
  C2 as the specification words it fails: with a database and a service entry of their own
  under the label \<^verbatim>\<open>dwata_meta\<close>, the list carries the label three times.
\<close>

theorem dwata_meta_label_repeated:
  "get_all_sources clash_env = Inr clash_sources \<and> count_label ''dwata_meta'' clash_sources = 3"
  by (simp add: clash_registry) (simp add: count_label_def clash_sources_def)

text \<open>
  C8. Whatever the settings loader holds or raises, \<^verbatim>\<open>get_source_settings("dwata_meta")\<close>
  returns the one fixed descriptor \<^verbatim>\<open>{"db_url": "sqlite:///dwata_meta.db"}\<close>: two
  environments never give different results for this label.
\<close>

theorem system_db_settings_fixed:
  "get_source_settings env1 ''dwata_meta'' = Inr (Some [(''db_url'', ''sqlite:///dwata_meta.db'')])
   \<and> get_source_settings env1 ''dwata_meta'' = get_source_settings env2 ''dwata_meta''"
  by (simp add: get_source_settings_def)

text \<open>
  C9 on the code. The claim wants a fourth item, the attributes, on every descriptor. The
  service descriptors of line 21 have three items: in the shop's registry list the last
  descriptor is \<^verbatim>\<open>["billing", "service", "stripe"]\<close>, of length 3, and reading its item 3
  raises \<^verbatim>\<open>IndexError\<close>, while the database descriptors before it have four.
\<close>

theorem service_descriptor_has_three_items:
  "get_all_sources shop_env = Inr shop_sources
   \<and> last shop_sources = Entry3 ''billing'' ''service'' ''stripe''
   \<and> py_len (last shop_sources) = 3
   \<and> item3 (last shop_sources) = Inl IndexError
   \<and> map py_len (butlast shop_sources) = [4, 4, 4]"
  by (simp add: shop_registry) (simp add: shop_sources_def)

text \<open>
  C10, as the code has it. Let the registry list be built, and let a label other than
  \<^verbatim>\<open>dwata_meta\<close> be a key of \<^verbatim>\<open>settings.DATABASES\<close> and the label of an entry of a
  configured service section. Then \<^verbatim>\<open>get_source_settings\<close> returns the entry of
  \<^verbatim>\<open>settings.DATABASES\<close>: the first descriptor with the label is a database descriptor,
  because the list is the database descriptors followed by the service descriptors.
\<close>

theorem database_entry_wins:
  assumes "get_settings env = Inr obj"
    and "get_all_sources env = Inr all_sources"
    and "database_entry obj L = Inr v"
    and "L \<in> item0 ` set (service_entries obj (all_services env))"
    and "L \<noteq> ''dwata_meta''"
  shows "get_source_settings env L = Inr (Some v)
         \<and> (\<exists>scheme. first_match all_sources L = Inr (Entry4 L ''database'' scheme []))
         \<and> (\<exists>ds ss. all_sources = ds @ ss \<and> (\<forall>x \<in> set ds. item1 x = ''database'')
                     \<and> (\<forall>x \<in> set ss. item1 x = ''service''))"
proof -
  from assms(2) obtain obj' dbs ps where obj': "get_settings env = Inr obj'"
    and dbs: "getattr obj' ''DATABASES'' = Inr dbs"
    and ps: "database_pairs (urlparse_scheme env) dbs = Inr ps"
    and srcs: "all_sources = map (\<lambda>(label, scheme). Entry4 label ''database'' scheme []) ps
                 @ [system_db] @ service_entries obj' (all_services env)"
    by (rule get_all_sources_shape)
  from obj' assms(1) have [simp]: "obj' = obj" by simp
  from assms(3) dbs have "map_of dbs L = Some v"
    by (simp add: database_entry_def subscript_def split: option.splits)
  then have "L \<in> fst ` set dbs" by (metis map_of_eq_None_iff option.distinct(1))
  with database_pairs_labels [OF ps] have "L \<in> fst ` set ps"
    by (metis image_set)
  from first_match_database [OF this] srcs obtain scheme
    where fm: "first_match all_sources L = Inr (Entry4 L ''database'' scheme [])" by blast
  with assms(1,2,3,5) have "get_source_settings env L = Inr (Some v)"
    by (simp add: get_source_settings_def)
  with fm registry_order [OF assms(2)] show ?thesis by blast
qed

text \<open>
  The theorem at settings where \<^verbatim>\<open>sales\<close> is a database and a Stripe entry: the
  database's entry is returned.
\<close>

theorem database_entry_wins_witness:
  "get_source_settings twin_env ''sales'' = Inr (Some [(''db_url'', ''postgres://host/salesdb'')])"
proof -
  have s: "get_settings twin_env = Inr twin_settings"
    by (simp add: twin_env_def shop_env_def)
  have e: "database_entry twin_settings ''sales'' = Inr [(''db_url'', ''postgres://host/salesdb'')]"
    by (simp add: database_entry_def getattr_def subscript_def twin_settings_def)
  have m: "''sales'' \<in> item0 ` set (service_entries twin_settings (all_services twin_env))"
    by (simp add: twin_env_def shop_env_def twin_settings_def hasattr_def getattr_def
        upper_stripe)
  have n: "''sales'' \<noteq> ''dwata_meta''" by simp
  from database_entry_wins [OF s twin_registry e m n] show ?thesis by blast
qed

text \<open>
  C10 as worded fails at the label \<^verbatim>\<open>dwata_meta\<close>: the settings hold a database entry
  and a service entry under it, and \<^verbatim>\<open>get_source_settings\<close> returns the fixed system
  descriptor, not the entry of \<^verbatim>\<open>settings.DATABASES\<close>.
\<close>

theorem dwata_meta_entry_shadowed:
  "database_entry clash_settings ''dwata_meta'' = Inr [(''db_url'', ''postgres://host/meta'')]
   \<and> count_label ''dwata_meta'' (service_entries clash_settings (all_services clash_env)) = 1
   \<and> get_source_settings clash_env ''dwata_meta''
       = Inr (Some [(''db_url'', ''sqlite:///dwata_meta.db'')])"
  by (simp add: database_entry_def getattr_def subscript_def clash_settings_def clash_env_def
      shop_env_def hasattr_def upper_stripe count_label_def get_source_settings_def)

subsection \<open>\<^verbatim>\<open>refresh\<close>\<close>

text \<open>
  C1 on the code. The store has the data source row 7 for \<^verbatim>\<open>sales\<close> (after a row for
  another label), the label resolves to its URL and reflection behind that URL enumerates
  the tables \<^verbatim>\<open>a\<close> and \<^verbatim>\<open>b\<close>; the claim wants two table rows inserted. Line 20 reads
  the name \<^verbatim>\<open>dwata_meta_db\<close>, which the module does not bind: \<^verbatim>\<open>refresh\<close> ends with
  \<^verbatim>\<open>NameError\<close> and the world is as before, without any table row.
\<close>

theorem refresh_sales_raises_name_error:
  "fetch_one (data_sources shop_world) ''sales'' = Some \<lparr>ds_id = 7, ds_label = ''sales''\<rparr>
   \<and> get_source_settings shop_env ''sales''
       = Inr (Some [(''db_url'', ''postgres://host/salesdb'')])
   \<and> reflect shop_env ''postgres://host/salesdb'' = Inr [''a'', ''b'']
   \<and> refresh shop_env [''sales''] shop_world = (Inl NameError, shop_world)
   \<and> tables shop_world = []"
  by (simp add: shop_sales_record shop_sales_settings shop_sales_reflect
      refresh_outcome [OF shop_registry] shop_sales_match)
     (simp add: shop_world_def)


text \<open>
  C5. When the first label of a batch resolves to a service descriptor, \<^verbatim>\<open>refresh\<close>
  returns \<^verbatim>\<open>False\<close> at once: the world, and with it the table rows, is as before, for
  this label and for every label after it.
\<close>

theorem service_label_aborts_batch:
  assumes "get_all_sources env = Inr all_sources"
    and "first_match all_sources L = Inr d" and "item1 d = ''service''"
  shows "refresh env (L # M # rest) w = (Inr ReturnFalse, w)"
proof -
  from service_match_settings [OF assms] obtain v
    where "get_source_settings env L = Inr (Some v)" ..
  with assms show ?thesis
    by (simp add: refresh_def refresh_label_def)
qed

text \<open>The theorem at the shop: the service \<^verbatim>\<open>billing\<close> before the database \<^verbatim>\<open>sales\<close>.\<close>

theorem service_label_aborts_batch_witness:
  "refresh shop_env [''billing'', ''sales''] shop_world = (Inr ReturnFalse, shop_world)"
proof -
  have k: "item1 (Entry3 ''billing'' ''service'' ''stripe'') = ''service''" by simp
  show ?thesis by (rule service_label_aborts_batch [OF shop_registry shop_billing_match k])
qed

text \<open>
  C3, as the code has it. When the registry list is built and the first label of the batch
  is not in it, \<^verbatim>\<open>refresh\<close> ends with the \<^verbatim>\<open>IndexError\<close> of line 14 and the world is
  unchanged: no table row is inserted.
\<close>

theorem unknown_label_raises_index_error:
  assumes "get_all_sources env = Inr all_sources"
    and "L \<notin> item0 ` set all_sources"
  shows "refresh env (L # rest) w = (Inl IndexError, w)"
  using assms(1) first_match_absent [OF assms(2)]
  by (simp add: refresh_def refresh_label_def)

text \<open>The theorem at the shop, for a label no section has.\<close>

theorem unknown_label_raises_index_error_witness:
  "refresh shop_env [''ghost''] shop_world = (Inl IndexError, shop_world)"
proof -
  have a: "''ghost'' \<notin> item0 ` set shop_sources" by (simp add: shop_sources_def)
  show ?thesis by (rule unknown_label_raises_index_error [OF shop_registry a])
qed

text \<open>
  C3 as worded fails: the failure for an unknown label is the bare \<^verbatim>\<open>IndexError\<close>, not
  an \<^verbatim>\<open>ExceptionBase\<close> carrying the code \<^verbatim>\<open>UnknownSource\<close>.
\<close>

theorem unknown_label_not_structured:
  "get_all_sources shop_env = Inr shop_sources
   \<and> count_label ''ghost'' shop_sources = 0
   \<and> fst (refresh shop_env [''ghost''] shop_world) = Inl IndexError
   \<and> \<not> structured_failure ''UnknownSource'' IndexError"
  by (simp add: shop_registry refresh_def refresh_label_def)
     (simp add: count_label_def first_match_def shop_sources_def)





end
